theory Spec2Isabelle
  imports Complex_Main "HOL-Library.Sublist"
begin

section \<open>Python values and exceptions\<close>

text \<open>
  The values that \<^verbatim>\<open>response.json()\<close> produces: None, bool, int, float, str, list and
  dict (keys in insertion order). A float is represented by the real number it denotes;
  the program never computes with one, it only tests it for truth and passes it on.
  A string is a list of characters.
\<close>

datatype json =
    JNull
  | JBool bool
  | JInt int
  | JFloat real
  | JStr string
  | JArr "json list"
  | JObj "(string \<times> json) list"

text \<open>
  The exceptions the program can raise. \<open>ValueError\<close> and \<open>AuthenticationError\<close> are
  raised by the program's own \<^verbatim>\<open>raise\<close> statements, with their message; the others by
  the interpreter (a missing key, an index out of range, an operation on a value of the
  wrong type, a local variable read before assignment) or by the HTTP session.
\<close>

datatype error =
    ValueError string
  | AuthenticationError string
  | KeyError json
  | IndexError
  | TypeError
  | UnboundLocalError string
  | ClientError string

text \<open>Truth value of a Python object, as \<^verbatim>\<open>if data:\<close> and \<^verbatim>\<open>not self.token\<close> test it.\<close>

fun truthy :: "json \<Rightarrow> bool" where
  "truthy JNull = False"
| "truthy (JBool b) = b"
| "truthy (JInt i) = (i \<noteq> 0)"
| "truthy (JFloat r) = (r \<noteq> 0)"
| "truthy (JStr s) = (s \<noteq> [])"
| "truthy (JArr xs) = (xs \<noteq> [])"
| "truthy (JObj kvs) = (kvs \<noteq> [])"

text \<open>Truth value of \<^verbatim>\<open>self.username\<close> and \<^verbatim>\<open>self.password\<close>: None or a str.\<close>

fun str_truthy :: "string option \<Rightarrow> bool" where
  "str_truthy None = False"
| "str_truthy (Some s) = (s \<noteq> [])"

text \<open>\<^verbatim>\<open>k in x\<close> for a str \<open>k\<close>: key of a dict, element of a list, substring of a str.\<close>

fun py_contains :: "string \<Rightarrow> json \<Rightarrow> error + bool" where
  "py_contains k (JObj kvs) = Inr (k \<in> fst ` set kvs)"
| "py_contains k (JArr xs) = Inr (JStr k \<in> set xs)"
| "py_contains k (JStr s) = Inr (sublist k s)"
| "py_contains k _ = Inl TypeError"

text \<open>\<^verbatim>\<open>x[k]\<close> for a str \<open>k\<close>.\<close>

fun py_getitem :: "json \<Rightarrow> string \<Rightarrow> error + json" where
  "py_getitem (JObj kvs) k =
     (case map_of kvs k of None \<Rightarrow> Inl (KeyError (JStr k)) | Some v \<Rightarrow> Inr v)"
| "py_getitem _ k = Inl TypeError"

text \<open>\<^verbatim>\<open>x[i]\<close> for the literal indices 0 and 1.\<close>

fun py_index :: "json \<Rightarrow> nat \<Rightarrow> error + json" where
  "py_index (JArr xs) i = (if i < length xs then Inr (xs ! i) else Inl IndexError)"
| "py_index (JStr s) i = (if i < length s then Inr (JStr [s ! i]) else Inl IndexError)"
| "py_index (JObj kvs) i = Inl (KeyError (JInt (int i)))"
| "py_index _ i = Inl TypeError"

text \<open>\<^verbatim>\<open>len(x)\<close>.\<close>

fun py_len :: "json \<Rightarrow> error + nat" where
  "py_len (JArr xs) = Inr (length xs)"
| "py_len (JStr s) = Inr (length s)"
| "py_len (JObj kvs) = Inr (length (remdups (map fst kvs)))"
| "py_len _ = Inl TypeError"

text \<open>Sequencing of expressions that may raise.\<close>

definition bindE :: "error + 'a \<Rightarrow> ('a \<Rightarrow> error + 'b) \<Rightarrow> error + 'b" where
  "bindE r f = (case r of Inl e \<Rightarrow> Inl e | Inr x \<Rightarrow> f x)"

text \<open>Reading a local variable that is bound only if an earlier branch was taken.\<close>

definition local_var :: "string \<Rightarrow> 'a option \<Rightarrow> error + 'a" where
  "local_var name v = (case v of None \<Rightarrow> Inl (UnboundLocalError name) | Some x \<Rightarrow> Inr x)"

section \<open>The HTTP session\<close>

text \<open>
  The endpoints requested below \<^verbatim>\<open>BASE_URL\<close>:
  \<^verbatim>\<open>system/station/list\<close>,
  \<^verbatim>\<open>system/station/getPowerStationByGuid?powerStationGuid={guid}&timezone=+02:00\<close>,
  \<^verbatim>\<open>tools/device/selectDeviceInverter\<close> and
  \<^verbatim>\<open>tools/device/selectDeviceInverterInfo?deviceGuid={guid}\<close>,
  each carrying the value formatted into it.
\<close>

datatype endpoint =
    StationList
  | PowerStationByGuid json
  | SelectDeviceInverter
  | SelectDeviceInverterInfo json

text \<open>
  A request is the POST of \<^verbatim>\<open>{"username": ..., "password": ...}\<close> to \<^verbatim>\<open>/login\<close>, or a GET
  of an endpoint with the header \<^verbatim>\<open>Authorization: Bearer {token}\<close>, carrying the token
  formatted into the header.
\<close>

datatype request =
    Post_login "string option" "string option"
  | Get endpoint json

text \<open>
  A response has a status and a body; \<open>json_body\<close> is what awaiting
  \<^verbatim>\<open>response.json()\<close> gives, which may raise. The request itself may raise too.
\<close>

record response =
  status :: int
  json_body :: "error + json"

type_synonym reply = "error + response"

text \<open>
  The session is the caller's transport. It answers a request as a function of the
  exchanges so far and of the request, and keeps the list of exchanges made through it.
\<close>

record session =
  respond :: "(request \<times> reply) list \<Rightarrow> request \<Rightarrow> reply"
  calls :: "(request \<times> reply) list"

section \<open>TalentSolarMonitor\<close>

record monitor =
  username :: "string option"
  password :: "string option"
  session :: session
  return_json :: bool
  token :: json

text \<open>
  \<^verbatim>\<open>__init__\<close>: each credential is the argument, or the environment variable when the
  argument is None or empty.
\<close>

definition init ::
  "string option \<Rightarrow> string option \<Rightarrow> string option \<Rightarrow> string option \<Rightarrow> session \<Rightarrow> bool \<Rightarrow> monitor" where
  "init username_arg password_arg env_username env_password session_arg return_json_arg =
     \<lparr> username = (if str_truthy username_arg then username_arg else env_username),
       password = (if str_truthy password_arg then password_arg else env_password),
       session = session_arg,
       return_json = return_json_arg,
       token = JNull \<rparr>"

text \<open>
  A method is a function from the object to the value returned or the exception raised,
  and the object afterwards.
\<close>

type_synonym 'a action = "monitor \<Rightarrow> (error + 'a) \<times> monitor"

definition returnS :: "'a \<Rightarrow> 'a action" where
  "returnS x = (\<lambda>self. (Inr x, self))"

definition raiseS :: "error \<Rightarrow> 'a action" where
  "raiseS e = (\<lambda>self. (Inl e, self))"

definition pureE :: "error + 'a \<Rightarrow> 'a action" where
  "pureE r = (\<lambda>self. (r, self))"

definition bindS :: "'a action \<Rightarrow> ('a \<Rightarrow> 'b action) \<Rightarrow> 'b action" where
  "bindS m f = (\<lambda>self. case m self of (Inl e, self') \<Rightarrow> (Inl e, self') | (Inr x, self') \<Rightarrow> f x self')"

text \<open>Awaiting \<^verbatim>\<open>self.session.post(...)\<close> or \<^verbatim>\<open>self.session.get(...)\<close>.\<close>

definition send :: "request \<Rightarrow> response action" where
  "send req = (\<lambda>self.
     let s = session self; r = respond s (calls s) req
     in (r, self\<lparr>session := s\<lparr>calls := calls s @ [(req, r)]\<rparr>\<rparr>))"

text \<open>
  Calling an \<^verbatim>\<open>async def\<close> method without \<^verbatim>\<open>await\<close> only makes a coroutine object; its
  body does not run, and the statement has no effect. Lines 63, 68 and 72 call
  \<^verbatim>\<open>self.login()\<close> and \<^verbatim>\<open>self.refresh_token()\<close> in this way.
\<close>

definition unawaited :: "'a action \<Rightarrow> unit action" where
  "unawaited coro = returnS ()"

text \<open>\<^verbatim>\<open>get_credentials\<close>, lines 41 to 46. It only reads the object.\<close>

definition get_credentials :: "monitor \<Rightarrow> error + unit" where
  "get_credentials self =
     (if \<not> str_truthy (username self) \<or> \<not> str_truthy (password self)
      then Inl (ValueError
        ''Credentials not provided via command line arguments or environment variables.'')
      else Inr ())"

text \<open>
  \<^verbatim>\<open>login\<close>, lines 48 to 58: the POST and the parsing of the body are awaited; the token
  is stored only when the body contains \<^verbatim>\<open>"token"\<close>.
\<close>

definition login :: "unit action" where
  "login =
     bindS (\<lambda>self. send (Post_login (username self) (password self)) self) (\<lambda>response.
     bindS (pureE (json_body response)) (\<lambda>response_data.
     bindS (pureE (py_contains ''token'' response_data)) (\<lambda>has_token.
     if has_token then
       bindS (pureE (py_getitem response_data ''token'')) (\<lambda>t.
       (\<lambda>self. (Inr (), self\<lparr>token := t\<rparr>)))
     else raiseS (AuthenticationError ''Authentication failed''))))"

text \<open>\<^verbatim>\<open>refresh_token\<close>, lines 60 to 63: its only statement of effect is an unawaited call.\<close>

definition refresh_token :: "unit action" where
  "refresh_token = unawaited login"

text \<open>
  \<^verbatim>\<open>get_data\<close>, lines 65 to 80. The header of each GET is built from \<^verbatim>\<open>self.token\<close> as it
  is when the request is made. The value returned is the parsed body on status 200 and
  None on any other status.
\<close>

definition get_data :: "endpoint \<Rightarrow> json action" where
  "get_data endpoint =
     bindS (\<lambda>self. if \<not> truthy (token self) then unawaited login self else returnS () self) (\<lambda>_.
     bindS (\<lambda>self. send (Get endpoint (token self)) self) (\<lambda>response.
     bindS (if status response = 401 then
              bindS (unawaited refresh_token) (\<lambda>_.
              (\<lambda>self. send (Get endpoint (token self)) self))
            else returnS response) (\<lambda>response.
     if status response = 200 then pureE (json_body response)
     else returnS JNull)))"

text \<open>Line 88: \<^verbatim>\<open>data and "rows" in data and len(data["rows"]) > 0\<close>.\<close>

definition has_rows :: "json \<Rightarrow> error + bool" where
  "has_rows data =
     (if \<not> truthy data then Inr False
      else bindE (py_contains ''rows'' data) (\<lambda>present.
        if \<not> present then Inr False
        else bindE (py_getitem data ''rows'') (\<lambda>rows.
             bindE (py_len rows) (\<lambda>n. Inr (n > 0)))))"

text \<open>
  Lines 89 to 92: the first station and its three fields. The local variable
  \<^verbatim>\<open>status\<close> is written \<open>status'\<close> here and below, apart from the field of a response.
\<close>

definition station_fields :: "json \<Rightarrow> error + (json \<times> json \<times> json)" where
  "station_fields data =
     bindE (py_getitem data ''rows'') (\<lambda>rows.
     bindE (py_index rows 0) (\<lambda>first_station.
     bindE (py_getitem first_station ''status'') (\<lambda>status'.
     bindE (py_getitem first_station ''stationName'') (\<lambda>stationName.
     bindE (py_getitem first_station ''powerStationGuid'') (\<lambda>powerStationGuid.
     Inr (status', stationName, powerStationGuid))))))"

text \<open>Lines 100 to 105: the four energy figures, bound only if \<open>data\<close> is true.\<close>

definition power_fields :: "json \<Rightarrow> error + (json \<times> json \<times> json \<times> json) option" where
  "power_fields data =
     (if truthy data then
        bindE (py_getitem data ''data'') (\<lambda>power_data.
        bindE (py_getitem power_data ''totalActivePower'') (\<lambda>totalActivePower.
        bindE (py_getitem power_data ''dayEnergy'') (\<lambda>dayEnergy.
        bindE (py_getitem power_data ''monthEnergy'') (\<lambda>monthEnergy.
        bindE (py_getitem power_data ''yearEnergy'') (\<lambda>yearEnergy.
        Inr (Some (totalActivePower, dayEnergy, monthEnergy, yearEnergy)))))))
      else Inr None)"

text \<open>Lines 108 and 109: the first inverter's GUID, bound only if \<open>data\<close> is true.\<close>

definition device_guid :: "json \<Rightarrow> error + json option" where
  "device_guid data =
     (if truthy data then
        bindE (py_getitem data ''rows'') (\<lambda>rows.
        bindE (py_index rows 0) (\<lambda>first_device.
        bindE (py_getitem first_device ''deviceGuid'') (\<lambda>deviceGuid.
        Inr (Some deviceGuid))))
      else Inr None)"

text \<open>Lines 116 to 123: the six panel readings, bound only if \<open>data\<close> is true.\<close>

definition pv_fields ::
  "json \<Rightarrow> error + (json \<times> json \<times> json \<times> json \<times> json \<times> json) option" where
  "pv_fields data =
     (if truthy data then
        bindE (py_getitem data ''data'') (\<lambda>inverter_data.
        bindE (py_getitem inverter_data ''pv'') (\<lambda>pv.
        bindE (py_index pv 0) (\<lambda>pv0.
        bindE (py_getitem pv0 ''voltage'') (\<lambda>pv1Voltage.
        bindE (py_index pv 0) (\<lambda>pv0.
        bindE (py_getitem pv0 ''current'') (\<lambda>pv1Current.
        bindE (py_index pv 0) (\<lambda>pv0.
        bindE (py_getitem pv0 ''power'') (\<lambda>pv1Power.
        bindE (py_index pv 1) (\<lambda>pv1.
        bindE (py_getitem pv1 ''voltage'') (\<lambda>pv2Voltage.
        bindE (py_index pv 1) (\<lambda>pv1.
        bindE (py_getitem pv1 ''current'') (\<lambda>pv2Current.
        bindE (py_index pv 1) (\<lambda>pv1.
        bindE (py_getitem pv1 ''power'') (\<lambda>pv2Power.
        Inr (Some (pv1Voltage, pv1Current, pv1Power, pv2Voltage, pv2Current, pv2Power))))))))))))))))
      else Inr None)"

text \<open>
  Lines 125 to 138: the dict display, its values read from the local variables in the
  order written. The first unbound one raises.
\<close>

definition build_result ::
  "json \<Rightarrow> json \<Rightarrow> (json \<times> json \<times> json \<times> json) option \<Rightarrow>
   (json \<times> json \<times> json \<times> json \<times> json \<times> json) option \<Rightarrow> error + (string \<times> json) list" where
  "build_result status' stationName energy panels =
     bindE (local_var ''totalActivePower'' energy)
       (\<lambda>(totalActivePower, dayEnergy, monthEnergy, yearEnergy).
     bindE (local_var ''pv1Voltage'' panels)
       (\<lambda>(pv1Voltage, pv1Current, pv1Power, pv2Voltage, pv2Current, pv2Power).
     Inr [(''Status'', status'),
          (''StationName'', stationName),
          (''TotalActivePower(W)'', totalActivePower),
          (''DailyEnergy(Wh)'', dayEnergy),
          (''MonthlyEnergy(Wh)'', monthEnergy),
          (''YearlyEnergy(Wh)'', yearEnergy),
          (''Panel1Voltage(V)'', pv1Voltage),
          (''Panel1Current(A)'', pv1Current),
          (''Panel1Power(W)'', pv1Power),
          (''Panel2Voltage(V)'', pv2Voltage),
          (''Panel2Current(A)'', pv2Current),
          (''Panel2Power(W)'', pv2Power)]))"

text \<open>
  The string that \<^verbatim>\<open>json.dumps(result, indent=4)\<close> returns, represented by the object it
  serialises: parsing the string gives back that object, with its keys in the same order.
\<close>

datatype json_text = Json_dumps json

text \<open>
  \<^verbatim>\<open>fetch_solar_data\<close>, lines 82 to 144. The value returned is None, or the JSON text of
  the report; in log mode the report is only logged and None is returned.
\<close>

definition fetch_solar_data :: "json_text option action" where
  "fetch_solar_data =
     bindS (\<lambda>self. pureE (get_credentials self) self) (\<lambda>_.
     bindS login (\<lambda>_.
     bindS (get_data StationList) (\<lambda>data.
     bindS (pureE (has_rows data)) (\<lambda>nonempty.
     if nonempty then
       bindS (pureE (station_fields data)) (\<lambda>(status', stationName, powerStationGuid).
       bindS (get_data (PowerStationByGuid powerStationGuid)) (\<lambda>data.
       bindS (pureE (power_fields data)) (\<lambda>energy.
       bindS (get_data SelectDeviceInverter) (\<lambda>data.
       bindS (pureE (device_guid data)) (\<lambda>device.
       bindS (pureE (local_var ''deviceGuid'' device)) (\<lambda>deviceGuid.
       bindS (get_data (SelectDeviceInverterInfo deviceGuid)) (\<lambda>data.
       bindS (pureE (pv_fields data)) (\<lambda>panels.
       bindS (pureE (build_result status' stationName energy panels)) (\<lambda>result.
       (\<lambda>self. if return_json self
               then returnS (Some (Json_dumps (JObj result))) self
               else returnS None self))))))))))
     else returnS None))))"

section \<open>Notions used in the statements\<close>

text \<open>
  What a method leaves unchanged: the credentials, the output flag and the transport's
  behaviour; the list of exchanges only grows.
\<close>

definition frame :: "monitor \<Rightarrow> monitor \<Rightarrow> bool" where
  "frame a b \<longleftrightarrow>
     username b = username a \<and> password b = password a \<and> return_json b = return_json a \<and>
     respond (session b) = respond (session a) \<and>
     prefix (calls (session a)) (calls (session b))"

definition framed :: "'a action \<Rightarrow> bool" where
  "framed m \<longleftrightarrow> (\<forall>self. frame self (snd (m self)))"

text \<open>The exchanges a method adds to the session's list when run from \<open>self\<close>.\<close>

definition new_calls :: "'a action \<Rightarrow> monitor \<Rightarrow> (request \<times> reply) list" where
  "new_calls m self = drop (length (calls (session self))) (calls (session (snd (m self))))"

text \<open>The object after the session has recorded the exchanges \<open>xs\<close>.\<close>

definition record_calls :: "(request \<times> reply) list \<Rightarrow> monitor \<Rightarrow> monitor" where
  "record_calls xs self = self\<lparr>session := (session self)\<lparr>calls := calls (session self) @ xs\<rparr>\<rparr>"

text \<open>
  What get_data makes of the reply to its last GET: the parsed body on status 200, None on
  any other status, the exception if the request raised.
\<close>

definition result_of :: "reply \<Rightarrow> error + json" where
  "result_of r = (case r of Inl e \<Rightarrow> Inl e
     | Inr resp \<Rightarrow> if status resp = 200 then json_body resp else Inr JNull)"

text \<open>The GET exchanges among a list of exchanges: endpoint and reply, in order.\<close>

fun gets :: "(request \<times> reply) list \<Rightarrow> (endpoint \<times> reply) list" where
  "gets [] = []"
| "gets ((Get e t, r) # xs) = (e, r) # gets xs"
| "gets ((Post_login u p, r) # xs) = gets xs"

text \<open>A response with status 200 and the given body; a response with no JSON body.\<close>

definition ok :: "json \<Rightarrow> reply" where
  "ok body = Inr \<lparr>status = 200, json_body = Inr body\<rparr>"

definition failed :: "int \<Rightarrow> reply" where
  "failed code = Inr \<lparr>status = code, json_body = Inl (ClientError ''ContentTypeError'')\<rparr>"

text \<open>The status of each reply in a list of exchanges (None where the request raised).\<close>

definition statuses :: "(request \<times> reply) list \<Rightarrow> int option list" where
  "statuses xs = map (\<lambda>(q, r). case r of Inl e \<Rightarrow> None | Inr resp \<Rightarrow> Some (status resp)) xs"

text \<open>The keys of the report a run returned, in order (none if it returned no report).\<close>

fun report_keys :: "error + json_text option \<Rightarrow> string list" where
  "report_keys (Inr (Some (Json_dumps (JObj kvs)))) = map fst kvs"
| "report_keys _ = []"

section \<open>Notions used in the proofs\<close>

text \<open>
  An action stops short on \<open>body\<close> with \<open>e\<close>: whenever its last exchange is a GET of the
  inverter detail answered with status 200 and \<open>body\<close>, it raises \<open>e\<close>.
\<close>

definition stops_short :: "json \<Rightarrow> error \<Rightarrow> 'a action \<Rightarrow> bool" where
  "stops_short body e m \<longleftrightarrow>
     (\<forall>self g t. new_calls m self \<noteq> [] \<and>
        last (new_calls m self) = (Get (SelectDeviceInverterInfo g) t, ok body) \<longrightarrow>
        fst (m self) = Inl e)"

text \<open>
  Two objects agree on what the program reads from them: the credentials, the output
  flag and the token. Their sessions are not compared.
\<close>

definition sim :: "monitor \<Rightarrow> monitor \<Rightarrow> bool" where
  "sim a b \<longleftrightarrow>
     username a = username b \<and> password a = password b \<and> return_json a = return_json b \<and>
     token a = token b"

text \<open>The replies an action receives when run from \<open>self\<close>, in order.\<close>

definition replies :: "'a action \<Rightarrow> monitor \<Rightarrow> reply list" where
  "replies m self = map snd (new_calls m self)"

text \<open>
  An action runs in lockstep: from two objects that agree, two runs whose sequences of
  replies are equal, or one a prefix of the other, make the same exchanges, end alike
  and leave objects that agree.
\<close>

definition lockstep :: "'a action \<Rightarrow> bool" where
  "lockstep m \<longleftrightarrow>
     (\<forall>a b. sim a b \<and> (prefix (replies m a) (replies m b) \<or> prefix (replies m b) (replies m a)) \<longrightarrow>
        fst (m a) = fst (m b) \<and> sim (snd (m a)) (snd (m b)) \<and> new_calls m a = new_calls m b)"

section \<open>Sessions and objects for concrete runs\<close>

text \<open>A session whose every request fails; no exchange made yet.\<close>

definition silent :: session where
  "silent = \<lparr>respond = (\<lambda>h r. Inl (ClientError ''unreachable'')), calls = []\<rparr>"

text \<open>
  A service with one station and one inverter with two panels, and the same service
  answering each endpoint by a given function.
\<close>

definition healthy :: "endpoint \<Rightarrow> reply" where
  "healthy e = (case e of
       StationList \<Rightarrow>
         ok (JObj [(''rows'', JArr [JObj [(''status'', JStr ''ready''),
                                           (''stationName'', JStr ''Roof''),
                                           (''powerStationGuid'', JStr ''G1'')]])])
     | PowerStationByGuid g \<Rightarrow>
         ok (JObj [(''data'', JObj [(''totalActivePower'', JInt 640),
                                    (''dayEnergy'', JInt 2100),
                                    (''monthEnergy'', JInt 51000),
                                    (''yearEnergy'', JInt 430000)])])
     | SelectDeviceInverter \<Rightarrow>
         ok (JObj [(''rows'', JArr [JObj [(''deviceGuid'', JStr ''D1'')]])])
     | SelectDeviceInverterInfo g \<Rightarrow>
         ok (JObj [(''data'', JObj [(''pv'',
               JArr [JObj [(''voltage'', JInt 31), (''current'', JInt 9), (''power'', JInt 279)],
                     JObj [(''voltage'', JInt 30), (''current'', JInt 12), (''power'', JInt 360)]])])]))"

definition service ::
  "json \<Rightarrow> (endpoint \<Rightarrow> reply) \<Rightarrow> (request \<times> reply) list \<Rightarrow> request \<Rightarrow> reply" where
  "service login_body answer h req =
     (case req of Post_login u p \<Rightarrow> ok login_body | Get e t \<Rightarrow> answer e)"

definition client :: "json \<Rightarrow> (endpoint \<Rightarrow> reply) \<Rightarrow> monitor" where
  "client login_body answer =
     init (Some ''user'') (Some ''secret'') None None
       \<lparr>respond = service login_body answer, calls = []\<rparr> True"

text \<open>
  An object holding a token from an earlier login, on a service that answers every GET
  with status 401 and would hand out the token \<open>fresh\<close> at a new login.
\<close>

definition expired :: monitor where
  "expired = (client (JObj [(''token'', JStr ''fresh'')]) (\<lambda>e. failed 401))\<lparr>token := JStr ''old''\<rparr>"

text \<open>
  A second service, which differs from the healthy one on requests that a run with the
  token \<open>T1\<close> never makes, and an object on it whose session has been used before.
\<close>

definition picky :: "(request \<times> reply) list \<Rightarrow> request \<Rightarrow> reply" where
  "picky h req =
     (case req of
        Post_login u p \<Rightarrow> if u = Some ''user'' then ok (JObj [(''token'', JStr ''T1'')]) else failed 403
      | Get e t \<Rightarrow> if t = JStr ''T1'' then healthy e else failed 401)"

definition returning_client :: monitor where
  "returning_client =
     init (Some ''user'') (Some ''secret'') None None
       \<lparr>respond = picky, calls = [(Post_login None None, failed 403)]\<rparr> True"

section \<open>Basic facts\<close>

lemma returnS_apply [simp]: "returnS x self = (Inr x, self)"
  by (simp add: returnS_def)

lemma raiseS_apply [simp]: "raiseS e self = (Inl e, self)"
  by (simp add: raiseS_def)

lemma pureE_apply [simp]: "pureE r self = (r, self)"
  by (simp add: pureE_def)

lemma unawaited_apply [simp]: "unawaited coro self = (Inr (), self)"
  by (simp add: unawaited_def)

lemma bindS_apply:
  "bindS m f self = (case m self of (Inl e, s) \<Rightarrow> (Inl e, s) | (Inr x, s) \<Rightarrow> f x s)"
  by (simp add: bindS_def)

lemma bindS_Inl: "m self = (Inl e, s) \<Longrightarrow> bindS m f self = (Inl e, s)"
  by (simp add: bindS_def)

lemma bindS_Inr: "m self = (Inr x, s) \<Longrightarrow> bindS m f self = f x s"
  by (simp add: bindS_def)

lemma bindE_Inl [simp]: "bindE (Inl e) f = Inl e"
  by (simp add: bindE_def)

lemma bindE_Inr [simp]: "bindE (Inr x) f = f x"
  by (simp add: bindE_def)

lemma send_apply:
  "send req self =
     (respond (session self) (calls (session self)) req,
      self\<lparr>session := (session self)\<lparr>calls := calls (session self) @
        [(req, respond (session self) (calls (session self)) req)]\<rparr>\<rparr>)"
  by (simp add: send_def Let_def)

subsection \<open>frame\<close>

lemma frame_refl [simp]: "frame a a"
  by (simp add: frame_def)

lemma frame_trans: "frame a b \<Longrightarrow> frame b c \<Longrightarrow> frame a c"
  by (auto simp: frame_def)

lemma framed_returnS [intro!, simp]: "framed (returnS x)"
  by (simp add: framed_def)

lemma framed_raiseS [intro!, simp]: "framed (raiseS e)"
  by (simp add: framed_def)

lemma framed_pureE [intro!, simp]: "framed (pureE r)"
  by (simp add: framed_def)

lemma framed_unawaited [intro!, simp]: "framed (unawaited coro)"
  by (simp add: framed_def)

lemma framed_read [intro!, simp]: "framed (\<lambda>self. pureE (g self) self)"
  by (simp add: framed_def)

lemma framed_set_token [intro!, simp]: "framed (\<lambda>self. (r, self\<lparr>token := t\<rparr>))"
  by (simp add: framed_def frame_def)

lemma framed_send [intro!, simp]: "framed (\<lambda>self. send (g self) self)"
  by (simp add: framed_def frame_def send_apply)

lemma framed_bindS [intro!]:
  assumes "framed m" and "\<And>x. framed (f x)"
  shows "framed (bindS m f)"
  unfolding framed_def
proof
  fix self
  have m: "frame self (snd (m self))"
    using assms(1) by (simp add: framed_def)
  show "frame self (snd (bindS m f self))"
  proof (cases "m self")
    case (Pair r s)
    show ?thesis
    proof (cases r)
      case (Inl e)
      with Pair m show ?thesis by (simp add: bindS_Inl)
    next
      case (Inr x)
      have "frame s (snd (f x s))"
        using assms(2) by (simp add: framed_def)
      with Pair Inr m show ?thesis
        by (auto simp: bindS_Inr intro: frame_trans)
    qed
  qed
qed

lemma framed_if [intro!]: "framed a \<Longrightarrow> framed b \<Longrightarrow> framed (if c then a else b)"
  by simp

lemma framed_if_self [intro!]:
  "framed a \<Longrightarrow> framed b \<Longrightarrow> framed (\<lambda>self. if c self then a self else b self)"
  by (simp add: framed_def)

lemma framed_case_prod3 [intro!]:
  "(\<And>a b c. framed (f a b c)) \<Longrightarrow> framed (case x of (a, b, c) \<Rightarrow> f a b c)"
  by (cases x) auto

lemma framed_login [intro!, simp]: "framed login"
  unfolding login_def by (intro framed_bindS framed_if framed_send framed_pureE framed_set_token framed_raiseS)

lemma framed_refresh_token [intro!, simp]: "framed refresh_token"
  by (simp add: refresh_token_def)

lemma framed_get_data [intro!, simp]: "framed (get_data endpoint)"
  unfolding get_data_def
  by (intro framed_bindS framed_if framed_if_self framed_send framed_pureE framed_returnS framed_unawaited)

lemma framed_fetch_solar_data [intro!, simp]: "framed fetch_solar_data"
  unfolding fetch_solar_data_def
  by (intro framed_bindS framed_if framed_if_self framed_case_prod3 framed_read framed_login
        framed_get_data framed_pureE framed_returnS)

subsection \<open>The exchanges of a call\<close>

lemma calls_new_calls:
  "framed m \<Longrightarrow> calls (session (snd (m self))) = calls (session self) @ new_calls m self"
proof -
  assume "framed m"
  then obtain zs where "calls (session (snd (m self))) = calls (session self) @ zs"
    by (auto simp: framed_def frame_def prefix_def)
  then show ?thesis
    by (simp add: new_calls_def)
qed

lemma new_calls_pure [simp]:
  "new_calls (returnS x) self = []" "new_calls (raiseS e) self = []"
  "new_calls (pureE r) self = []" "new_calls (unawaited coro) self = []"
  "new_calls (\<lambda>self. pureE (g self) self) self = []"
  "new_calls (\<lambda>self. (q, self\<lparr>token := t\<rparr>)) self = []"
  by (simp_all add: new_calls_def)

lemma new_calls_send [simp]:
  "new_calls (\<lambda>self. send (g self) self) self =
     [(g self, respond (session self) (calls (session self)) (g self))]"
  by (simp add: new_calls_def send_apply)

lemma new_calls_bindS:
  assumes "framed m" and "\<And>x. framed (f x)"
  shows "new_calls (bindS m f) self =
     new_calls m self @ (case fst (m self) of Inl e \<Rightarrow> [] | Inr x \<Rightarrow> new_calls (f x) (snd (m self)))"
proof (cases "m self")
  case (Pair r s)
  have cm: "calls (session s) = calls (session self) @ new_calls m self"
    using calls_new_calls [OF assms(1), of self] Pair by simp
  show ?thesis
  proof (cases r)
    case (Inl e)
    with Pair show ?thesis by (simp add: new_calls_def bindS_Inl)
  next
    case (Inr x)
    have "calls (session (snd (f x s))) = calls (session s) @ new_calls (f x) s"
      using calls_new_calls [OF assms(2)] by simp
    then have "calls (session (snd (bindS m f self))) =
        calls (session self) @ new_calls m self @ new_calls (f x) s"
      using Pair Inr cm by (simp add: bindS_Inr)
    then have "new_calls (bindS m f) self = new_calls m self @ new_calls (f x) s"
      by (simp add: new_calls_def)
    with Pair Inr show ?thesis
      by simp
  qed
qed

lemma login_apply:
  "login self =
     (let req = Post_login (username self) (password self);
          r = respond (session self) (calls (session self)) req;
          self' = record_calls [(req, r)] self
      in case r of Inl e \<Rightarrow> (Inl e, self')
         | Inr response \<Rightarrow>
           (case json_body response of Inl e \<Rightarrow> (Inl e, self')
            | Inr response_data \<Rightarrow>
              (case py_contains ''token'' response_data of Inl e \<Rightarrow> (Inl e, self')
               | Inr has_token \<Rightarrow>
                 if has_token then
                   (case py_getitem response_data ''token'' of Inl e \<Rightarrow> (Inl e, self')
                    | Inr t \<Rightarrow> (Inr (), self'\<lparr>token := t\<rparr>))
                 else (Inl (AuthenticationError ''Authentication failed''), self'))))"
  by (simp add: login_def bindS_apply send_apply record_calls_def Let_def split: sum.splits)

lemma get_data_apply:
  "get_data endpoint self =
     (let req = Get endpoint (token self);
          r1 = respond (session self) (calls (session self)) req
      in case r1 of Inl e \<Rightarrow> (Inl e, record_calls [(req, r1)] self)
         | Inr response \<Rightarrow>
           if status response = 401 then
             (let r2 = respond (session self) (calls (session self) @ [(req, r1)]) req
              in (result_of r2, record_calls [(req, r1), (req, r2)] self))
           else (result_of r1, record_calls [(req, r1)] self))"
  by (simp add: get_data_def bindS_apply send_apply record_calls_def result_of_def Let_def
           split: sum.splits)

lemma new_calls_login:
  "new_calls login self =
     [(Post_login (username self) (password self),
       respond (session self) (calls (session self)) (Post_login (username self) (password self)))]"
  by (simp add: login_apply new_calls_def record_calls_def Let_def split: sum.splits)

lemma token_get_data [simp]: "token (snd (get_data endpoint self)) = token self"
  by (simp add: get_data_apply record_calls_def Let_def split: sum.splits)

lemma key_in_dict: "k \<in> fst ` set kvs \<longleftrightarrow> (\<exists>v. map_of kvs k = Some v)"
  using map_of_eq_None_iff [of kvs k] by auto

lemma record_calls_simps [simp]:
  "username (record_calls xs self) = username self"
  "password (record_calls xs self) = password self"
  "return_json (record_calls xs self) = return_json self"
  "token (record_calls xs self) = token self"
  "respond (session (record_calls xs self)) = respond (session self)"
  "calls (session (record_calls xs self)) = calls (session self) @ xs"
  "record_calls xs (self\<lparr>token := t\<rparr>) = (record_calls xs self)\<lparr>token := t\<rparr>"
  by (simp_all add: record_calls_def)

lemma new_calls_get_data:
  "new_calls (get_data endpoint) self =
     (let req = Get endpoint (token self);
          r1 = respond (session self) (calls (session self)) req
      in case r1 of Inl e \<Rightarrow> [(req, r1)]
         | Inr response \<Rightarrow>
           if status response = 401
           then [(req, r1), (req, respond (session self) (calls (session self) @ [(req, r1)]) req)]
           else [(req, r1)])"
  by (simp add: get_data_apply new_calls_def Let_def split: sum.splits)

lemmas run_simps = fetch_solar_data_def bindS_apply login_apply get_data_apply
  result_of_def client_def init_def service_def healthy_def ok_def failed_def Let_def
  get_credentials_def has_rows_def station_fields_def power_fields_def device_guid_def
  pv_fields_def build_result_def local_var_def new_calls_def statuses_def expired_def

lemma framed_pair [intro!, simp]: "framed (\<lambda>self. (g self, self))"
  by (simp add: framed_def)

lemma new_calls_pair [simp]: "new_calls (\<lambda>self. (g self, self)) self = []"
  by (simp add: new_calls_def)

lemmas framed_rules = framed_bindS framed_if framed_if_self framed_case_prod3

lemma dict_lookup:
  assumes "map_of kvs k = Some v"
  shows "py_getitem (JObj kvs) k = Inr v" "py_contains k (JObj kvs) = Inr True" "truthy (JObj kvs)"
  using assms by (auto simp: key_in_dict)

lemma gets_append [simp]: "gets (xs @ ys) = gets xs @ gets ys"
  by (induction xs rule: gets.induct) simp_all

lemma gets_get_data: "set (map fst (gets (new_calls (get_data endpoint) self))) \<subseteq> {endpoint}"
  by (simp add: new_calls_get_data Let_def split: sum.splits)

lemma has_rows_absent: "map_of kvs ''rows'' = None \<Longrightarrow> has_rows (JObj kvs) = Inr False"
  using key_in_dict [of "''rows''" kvs] by (simp add: has_rows_def)

lemma has_rows_empty: "map_of kvs ''rows'' = Some (JArr []) \<Longrightarrow> has_rows (JObj kvs) = Inr False"
  by (auto simp: has_rows_def dict_lookup key_in_dict)

subsection \<open>Runs that end at the inverter detail\<close>

lemma stops_short_silent:
  "(\<And>self. new_calls m self = []) \<Longrightarrow> stops_short body e m"
  by (simp add: stops_short_def)

lemma stops_short_login: "stops_short body e login"
  by (simp add: stops_short_def new_calls_login)

lemma stops_short_get_data:
  "(\<And>g. endpoint \<noteq> SelectDeviceInverterInfo g) \<Longrightarrow> stops_short body e (get_data endpoint)"
  by (auto simp: stops_short_def new_calls_get_data Let_def split: sum.splits if_splits)

lemma stops_short_bindS:
  assumes "framed m" and "\<And>x. framed (f x)"
      and "stops_short body e m" and "\<And>x. stops_short body e (f x)"
  shows "stops_short body e (bindS m f)"
  unfolding stops_short_def
proof (intro allI impI)
  fix self g t
  assume h: "new_calls (bindS m f) self \<noteq> [] \<and>
     last (new_calls (bindS m f) self) = (Get (SelectDeviceInverterInfo g) t, ok body)"
  obtain r s where ms: "m self = (r, s)"
    by (cases "m self")
  have split: "new_calls (bindS m f) self =
      new_calls m self @ (case r of Inl e \<Rightarrow> [] | Inr x \<Rightarrow> new_calls (f x) s)"
    using ms by (simp add: new_calls_bindS assms(1,2) split: sum.splits)
  show "fst (bindS m f self) = Inl e"
  proof (cases r)
    case (Inl e')
    with h split have "new_calls m self \<noteq> []"
      "last (new_calls m self) = (Get (SelectDeviceInverterInfo g) t, ok body)"
      by simp_all
    then have "fst (m self) = Inl e"
      using assms(3) by (auto simp: stops_short_def)
    with ms Inl show ?thesis
      by (simp add: bindS_Inl)
  next
    case (Inr x)
    show ?thesis
    proof (cases "new_calls (f x) s = []")
      case True
      with h split Inr have "new_calls m self \<noteq> []"
        "last (new_calls m self) = (Get (SelectDeviceInverterInfo g) t, ok body)"
        by simp_all
      then have "fst (m self) = Inl e"
        using assms(3) by (auto simp: stops_short_def)
      with ms Inr show ?thesis
        by simp
    next
      case False
      with h split Inr have "last (new_calls (f x) s) = (Get (SelectDeviceInverterInfo g) t, ok body)"
        by simp
      with False have "fst (f x s) = Inl e"
        using assms(4) [of x] by (auto simp: stops_short_def)
      with ms Inr show ?thesis
        by (simp add: bindS_Inr)
    qed
  qed
qed

lemma get_data_last:
  "new_calls (get_data endpoint) self \<noteq> [] \<and>
   fst (get_data endpoint self) = result_of (snd (last (new_calls (get_data endpoint) self)))"
  by (simp add: new_calls_get_data get_data_apply result_of_def Let_def split: sum.splits)

lemma stops_short_inverter_info:
  assumes "pv_fields body = Inl e"
      and "\<And>p. framed (k p)" and "\<And>p. stops_short body e (k p)"
  shows "stops_short body e
     (bindS (get_data (SelectDeviceInverterInfo guid)) (\<lambda>data. bindS (pureE (pv_fields data)) k))"
  unfolding stops_short_def
proof (intro allI impI)
  fix self g t
  let ?gd = "get_data (SelectDeviceInverterInfo guid)"
  let ?m = "bindS ?gd (\<lambda>data. bindS (pureE (pv_fields data)) k)"
  assume h: "new_calls ?m self \<noteq> [] \<and>
     last (new_calls ?m self) = (Get (SelectDeviceInverterInfo g) t, ok body)"
  obtain r s where gs: "?gd self = (r, s)"
    by (cases "?gd self")
  have fr: "\<And>data. framed (bindS (pureE (pv_fields data)) k)"
    using assms(2) by (intro framed_bindS framed_pureE)
  have split: "new_calls ?m self = new_calls ?gd self @
      (case r of Inl e \<Rightarrow> [] | Inr data \<Rightarrow> new_calls (bindS (pureE (pv_fields data)) k) s)"
    using gs by (simp add: new_calls_bindS fr split: sum.splits)
  have inner: "\<And>data. new_calls (bindS (pureE (pv_fields data)) k) s =
      (case pv_fields data of Inl e \<Rightarrow> [] | Inr p \<Rightarrow> new_calls (k p) s)"
    using assms(2) by (simp add: new_calls_bindS split: sum.splits)
  have last_gd: "new_calls ?gd self \<noteq> []"
    "r = result_of (snd (last (new_calls ?gd self)))"
    using get_data_last [of "SelectDeviceInverterInfo guid" self] gs by simp_all
  show "fst (?m self) = Inl e"
  proof (cases "\<exists>data p. r = Inr data \<and> pv_fields data = Inr p \<and> new_calls (k p) s \<noteq> []")
    case True
    then obtain data p where d: "r = Inr data" "pv_fields data = Inr p" "new_calls (k p) s \<noteq> []"
      by blast
    have "new_calls (bindS (pureE (pv_fields data)) k) s = new_calls (k p) s"
      using inner [of data] d(2) by simp
    then have "new_calls ?m self = new_calls ?gd self @ new_calls (k p) s"
      using split d(1) by simp
    with h d(3) have "last (new_calls (k p) s) = (Get (SelectDeviceInverterInfo g) t, ok body)"
      by simp
    with d(3) have "fst (k p s) = Inl e"
      using assms(3) [of p] by (auto simp: stops_short_def)
    with gs d show ?thesis
      by (simp add: bindS_apply)
  next
    case False
    then have "new_calls ?m self = new_calls ?gd self"
      using split inner by (auto split: sum.splits)
    with h last_gd have "r = result_of (ok body)"
      by simp
    then have "r = Inr body"
      by (simp add: result_of_def ok_def)
    with gs assms(1) show ?thesis
      by (simp add: bindS_apply)
  qed
qed

lemma stops_short_if:
  "stops_short body e a \<Longrightarrow> stops_short body e b \<Longrightarrow> stops_short body e (if c then a else b)"
  by simp

lemma stops_short_case_prod3:
  "(\<And>a b c. stops_short body e (f a b c)) \<Longrightarrow> stops_short body e (case x of (a, b, c) \<Rightarrow> f a b c)"
  by (cases x) auto

lemma new_calls_if_self:
  "new_calls (\<lambda>s. if c s then a s else b s) self =
     (if c self then new_calls a self else new_calls b self)"
  by (simp add: new_calls_def)

lemma stops_short_if_self:
  "stops_short body e a \<Longrightarrow> stops_short body e b \<Longrightarrow>
   stops_short body e (\<lambda>self. if c self then a self else b self)"
  by (auto simp: stops_short_def new_calls_if_self)

lemma stops_short_pure:
  "stops_short body e (returnS x)" "stops_short body e (pureE r)"
  "stops_short body e (\<lambda>self. pureE (g self) self)"
  by (simp_all add: stops_short_def)

lemma stops_short_fetch_solar_data:
  assumes "pv_fields body = Inl e"
  shows "stops_short body e fetch_solar_data"
  unfolding fetch_solar_data_def
  by (intro stops_short_inverter_info stops_short_bindS stops_short_if stops_short_if_self
      stops_short_case_prod3 stops_short_login stops_short_get_data stops_short_pure assms
      framed_rules framed_login framed_get_data framed_pureE framed_returnS framed_read)
    simp_all

lemma short_pv_error:
  assumes "py_getitem body ''data'' = Inr d" and "py_getitem d ''pv'' = Inr (JArr pv)"
      and "length pv < 2"
  shows "\<exists>e. pv_fields body = Inl e \<and>
           (e = IndexError \<or> e = TypeError \<or> (\<exists>k. e = KeyError k)) \<and>
           ((\<forall>p \<in> set pv. \<exists>kvs. p = JObj kvs \<and>
               {''voltage'', ''current'', ''power''} \<subseteq> fst ` set kvs) \<longrightarrow> e = IndexError)"
proof -
  have tb: "truthy body"
    using assms(1) by (cases body) (auto split: option.splits)
  consider "pv = []" | x where "pv = [x]"
    using assms(3) by (cases pv; cases "tl pv") auto
  then show ?thesis
  proof cases
    case 1
    then show ?thesis
      using assms tb by (simp add: pv_fields_def)
  next
    case 2
    show ?thesis
    proof (cases x)
      case (JObj kvs)
      then show ?thesis
        using assms tb 2
        by (auto simp: pv_fields_def key_in_dict split: option.splits)
    qed (use assms tb 2 in \<open>simp_all add: pv_fields_def\<close>)
  qed
qed

subsection \<open>Runs in lockstep\<close>

lemma replies_bindS:
  assumes "framed m" and "\<And>x. framed (f x)"
  shows "replies (bindS m f) self =
     replies m self @ (case fst (m self) of Inl e \<Rightarrow> [] | Inr x \<Rightarrow> replies (f x) (snd (m self)))"
  by (simp add: replies_def new_calls_bindS assms split: sum.splits)

lemma comparable_appendD:
  assumes "prefix (xs @ ys) (zs @ ws) \<or> prefix (zs @ ws) (xs @ ys)"
  shows "prefix xs zs \<or> prefix zs xs"
proof -
  have "prefix xs (xs @ ys)" "prefix zs (zs @ ws)"
    by simp_all
  with assms have "(prefix xs (zs @ ws) \<and> prefix zs (zs @ ws)) \<or>
      (prefix xs (xs @ ys) \<and> prefix zs (xs @ ys))"
    by (meson prefix_order.trans)
  then show ?thesis
    by (meson prefix_same_cases)
qed

lemma lockstep_silent:
  assumes "\<And>a b. sim a b \<Longrightarrow> fst (m a) = fst (m b) \<and> sim (snd (m a)) (snd (m b))"
      and "\<And>a. new_calls m a = []"
  shows "lockstep m"
  using assms by (simp add: lockstep_def)

lemma lockstep_returnS: "lockstep (returnS x)"
  by (rule lockstep_silent) simp_all

lemma lockstep_raiseS: "lockstep (raiseS e)"
  by (rule lockstep_silent) simp_all

lemma lockstep_pureE: "lockstep (pureE r)"
  by (rule lockstep_silent) simp_all

lemma lockstep_unawaited: "lockstep (unawaited coro)"
  by (rule lockstep_silent) simp_all

lemma lockstep_get_credentials: "lockstep (\<lambda>self. pureE (get_credentials self) self)"
  by (rule lockstep_silent) (simp_all add: sim_def get_credentials_def)

lemma lockstep_set_token: "lockstep (\<lambda>self. (r, self\<lparr>token := t\<rparr>))"
  by (rule lockstep_silent) (simp_all add: sim_def)

lemma lockstep_send:
  assumes "\<And>a b. sim a b \<Longrightarrow> g a = g b"
  shows "lockstep (\<lambda>self. send (g self) self)"
  unfolding lockstep_def
proof (intro allI impI)
  fix a b :: monitor
  assume h: "sim a b \<and>
     (prefix (replies (\<lambda>self. send (g self) self) a) (replies (\<lambda>self. send (g self) self) b) \<or>
      prefix (replies (\<lambda>self. send (g self) self) b) (replies (\<lambda>self. send (g self) self) a))"
  then have g: "g a = g b"
    using assms by simp
  from h have eq: "respond (session a) (calls (session a)) (g a) =
      respond (session b) (calls (session b)) (g b)"
    by (auto simp: replies_def)
  have n: "new_calls (\<lambda>self. send (g self) self) a = new_calls (\<lambda>self. send (g self) self) b"
    using g eq by simp
  have r: "fst (send (g a) a) = fst (send (g b) b)"
    using g eq by (simp add: send_apply)
  have "sim (snd (send (g a) a)) (snd (send (g b) b))"
    using h by (simp add: send_apply sim_def)
  with n r show "fst (send (g a) a) = fst (send (g b) b) \<and>
      sim (snd (send (g a) a)) (snd (send (g b) b)) \<and>
      new_calls (\<lambda>self. send (g self) self) a = new_calls (\<lambda>self. send (g self) self) b"
    by blast
qed

lemma lockstep_bindS:
  assumes fm: "framed m" and ff: "\<And>x. framed (f x)"
      and lm: "lockstep m" and lf: "\<And>x. lockstep (f x)"
  shows "lockstep (bindS m f)"
  unfolding lockstep_def
proof (intro allI impI)
  fix a b :: monitor
  assume h: "sim a b \<and> (prefix (replies (bindS m f) a) (replies (bindS m f) b) \<or>
     prefix (replies (bindS m f) b) (replies (bindS m f) a))"
  let ?ta = "case fst (m a) of Inl e \<Rightarrow> [] | Inr x \<Rightarrow> replies (f x) (snd (m a))"
  let ?tb = "case fst (m b) of Inl e \<Rightarrow> [] | Inr x \<Rightarrow> replies (f x) (snd (m b))"
  have ra: "replies (bindS m f) a = replies m a @ ?ta"
    and rb: "replies (bindS m f) b = replies m b @ ?tb"
    by (simp_all add: replies_bindS [OF fm ff])
  have "prefix (replies m a) (replies m b) \<or> prefix (replies m b) (replies m a)"
    using h comparable_appendD [of "replies m a" ?ta "replies m b" ?tb] by (simp add: ra rb)
  with h lm have first: "fst (m a) = fst (m b)" "sim (snd (m a)) (snd (m b))"
    "new_calls m a = new_calls m b"
    by (auto simp: lockstep_def)
  obtain r sa where ma: "m a = (r, sa)"
    by (cases "m a")
  with first obtain sb where mb: "m b = (r, sb)"
    by (cases "m b") auto
  have sab: "sim sa sb"
    using first(2) ma mb by simp
  show "fst (bindS m f a) = fst (bindS m f b) \<and> sim (snd (bindS m f a)) (snd (bindS m f b)) \<and>
      new_calls (bindS m f) a = new_calls (bindS m f) b"
  proof (cases r)
    case (Inl e)
    with ma mb sab first(3) show ?thesis
      by (simp add: bindS_Inl new_calls_bindS [OF fm ff])
  next
    case (Inr x)
    have "replies m a = replies m b"
      using first(3) by (simp add: replies_def)
    with h ra rb ma mb Inr
    have "prefix (replies (f x) sa) (replies (f x) sb) \<or> prefix (replies (f x) sb) (replies (f x) sa)"
      by simp
    with sab lf [of x] have "fst (f x sa) = fst (f x sb)" "sim (snd (f x sa)) (snd (f x sb))"
      "new_calls (f x) sa = new_calls (f x) sb"
      by (auto simp: lockstep_def)
    with ma mb Inr first(3) show ?thesis
      by (simp add: bindS_Inr new_calls_bindS [OF fm ff])
  qed
qed

lemma lockstep_if: "lockstep a \<Longrightarrow> lockstep b \<Longrightarrow> lockstep (if c then a else b)"
  by simp

lemma lockstep_if_self:
  assumes "\<And>a b. sim a b \<Longrightarrow> c a = c b" and "lockstep m" and "lockstep n"
  shows "lockstep (\<lambda>self. if c self then m self else n self)"
  unfolding lockstep_def
proof (intro allI impI)
  fix a b :: monitor
  let ?k = "\<lambda>self. if c self then m self else n self"
  assume h: "sim a b \<and> (prefix (replies ?k a) (replies ?k b) \<or> prefix (replies ?k b) (replies ?k a))"
  then have c: "c a = c b"
    using assms(1) by simp
  show "fst (?k a) = fst (?k b) \<and> sim (snd (?k a)) (snd (?k b)) \<and> new_calls ?k a = new_calls ?k b"
  proof (cases "c a")
    case True
    with c h have "sim a b \<and> (prefix (replies m a) (replies m b) \<or> prefix (replies m b) (replies m a))"
      by (simp add: replies_def new_calls_if_self)
    with assms(2) True c show ?thesis
      by (simp add: lockstep_def new_calls_if_self)
  next
    case False
    with c h have "sim a b \<and> (prefix (replies n a) (replies n b) \<or> prefix (replies n b) (replies n a))"
      by (simp add: replies_def new_calls_if_self)
    with assms(3) False c show ?thesis
      by (simp add: lockstep_def new_calls_if_self)
  qed
qed

lemma lockstep_case_prod3:
  "(\<And>a b c. lockstep (f a b c)) \<Longrightarrow> lockstep (case x of (a, b, c) \<Rightarrow> f a b c)"
  by (cases x) auto

lemma lockstep_login: "lockstep login"
  unfolding login_def
  by (intro lockstep_bindS lockstep_if lockstep_send lockstep_pureE lockstep_set_token
      lockstep_raiseS framed_rules framed_send framed_pureE framed_set_token framed_raiseS)
    (simp add: sim_def)

lemma lockstep_refresh_token: "lockstep refresh_token"
  by (simp add: refresh_token_def lockstep_unawaited)

lemma lockstep_get_data: "lockstep (get_data endpoint)"
  unfolding get_data_def
  by (intro lockstep_bindS lockstep_if lockstep_if_self lockstep_send lockstep_pureE
      lockstep_returnS lockstep_unawaited framed_rules framed_send framed_pureE framed_returnS
      framed_unawaited)
    (simp_all add: sim_def)

lemma lockstep_fetch_solar_data: "lockstep fetch_solar_data"
  unfolding fetch_solar_data_def
  by (intro lockstep_bindS lockstep_if lockstep_if_self lockstep_case_prod3
      lockstep_get_credentials lockstep_login lockstep_get_data lockstep_pureE lockstep_returnS
      framed_rules framed_read framed_login framed_get_data framed_pureE framed_returnS)
    (simp_all add: sim_def)

section \<open>The claims\<close>

text \<open>
  C9. The username and password fields are never written after construction: login,
  refresh_token, get_data and fetch_solar_data each leave both equal to their values
  before the call, whether the call returns or raises. (get_credentials only reads the
  object; in the model it returns no new object at all.)
\<close>

theorem credentials_immutable:
  "username (snd (login self)) = username self \<and> password (snd (login self)) = password self \<and>
   username (snd (refresh_token self)) = username self \<and>
   password (snd (refresh_token self)) = password self \<and>
   username (snd (get_data endpoint self)) = username self \<and>
   password (snd (get_data endpoint self)) = password self \<and>
   username (snd (fetch_solar_data self)) = username self \<and>
   password (snd (fetch_solar_data self)) = password self"
proof -
  have "frame self (snd (login self))" "frame self (snd (refresh_token self))"
    "frame self (snd (get_data endpoint self))" "frame self (snd (fetch_solar_data self))"
    using framed_login framed_refresh_token framed_get_data [of endpoint] framed_fetch_solar_data
    by (simp_all add: framed_def)
  then show ?thesis
    by (simp add: frame_def)
qed

text \<open>
  C6. When the username or the password is None or empty (after the fallback to the
  environment, which \<open>init\<close> has already applied), fetch_solar_data raises the ValueError
  of get_credentials, whose message begins with "Credentials not provided"; the object
  is unchanged and the session has recorded no request, neither the POST nor a GET.
\<close>

theorem missing_credentials_no_request:
  assumes "\<not> str_truthy (username self) \<or> \<not> str_truthy (password self)"
  shows "\<exists>msg. fetch_solar_data self = (Inl (ValueError msg), self) \<and>
           prefix ''Credentials not provided'' msg \<and>
           new_calls fetch_solar_data self = []"
proof -
  let ?msg = "''Credentials not provided via command line arguments or environment variables.''"
  have "get_credentials self = Inl (ValueError ?msg)"
    using assms by (auto simp: get_credentials_def)
  then have run: "fetch_solar_data self = (Inl (ValueError ?msg), self)"
    by (simp add: fetch_solar_data_def bindS_Inl)
  then have "new_calls fetch_solar_data self = []"
    by (simp add: new_calls_def)
  moreover have "prefix ''Credentials not provided'' ?msg"
    by simp
  ultimately show ?thesis
    using run by blast
qed

theorem missing_credentials_no_request_witness:
  "\<not> str_truthy (username (init None (Some ''secret'') None None silent True)) \<and>
   (\<exists>msg. fetch_solar_data (init None (Some ''secret'') None None silent True) =
      (Inl (ValueError msg), init None (Some ''secret'') None None silent True) \<and>
      prefix ''Credentials not provided'' msg \<and>
      new_calls fetch_solar_data (init None (Some ''secret'') None None silent True) = [])"
proof -
  have h: "\<not> str_truthy (username (init None (Some ''secret'') None None silent True))"
    by (simp add: init_def)
  show ?thesis
    using h missing_credentials_no_request [of "init None (Some ''secret'') None None silent True"]
    by blast
qed

text \<open>
  A login whose response body is not an object does not end in AuthenticationError.
  The body \<^verbatim>\<open>null\<close> has no token field, and \<^verbatim>\<open>"token" in None\<close> raises TypeError. The body
  \<^verbatim>\<open>["token"]\<close> has no token field either; the test \<^verbatim>\<open>"token" in response_data\<close> is true of
  the list, and \<^verbatim>\<open>response_data["token"]\<close> raises TypeError.
\<close>

theorem login_body_counterexample:
  "fst (login (client JNull healthy)) = Inl TypeError \<and>
   fst (login (client (JArr [JStr ''token'']) healthy)) = Inl TypeError \<and>
   fst (login (client JNull healthy)) \<noteq> Inl (AuthenticationError ''Authentication failed'')"
  by (simp add: login_apply client_def init_def service_def ok_def Let_def)

text \<open>
  C8, as the code has it. login posts the username and password to /login, once. When
  the body of the response is an object with a token field, login returns and the token
  held is that value; when the body is an object with no token field, login raises
  AuthenticationError and the token held is the one held before.
\<close>

theorem login_token:
  assumes "respond (session self) (calls (session self))
             (Post_login (username self) (password self)) = Inr resp"
      and "json_body resp = Inr (JObj kvs)"
  shows "new_calls login self = [(Post_login (username self) (password self), Inr resp)] \<and>
         (case map_of kvs ''token'' of
            Some t \<Rightarrow> fst (login self) = Inr () \<and> token (snd (login self)) = t
          | None \<Rightarrow> fst (login self) = Inl (AuthenticationError ''Authentication failed'') \<and>
                    token (snd (login self)) = token self)"
  using assms
  by (simp add: new_calls_login login_apply key_in_dict record_calls_def Let_def
           split: option.splits)

text \<open>
  Two logins on the service: one whose response carries a token, one whose response
  is an object without a token field.
\<close>

theorem login_token_witness:
  "respond (session (client (JObj [(''token'', JStr ''T1'')]) healthy))
     (calls (session (client (JObj [(''token'', JStr ''T1'')]) healthy)))
     (Post_login (username (client (JObj [(''token'', JStr ''T1'')]) healthy))
                 (password (client (JObj [(''token'', JStr ''T1'')]) healthy))) =
     Inr \<lparr>status = 200, json_body = Inr (JObj [(''token'', JStr ''T1'')])\<rparr> \<and>
   fst (login (client (JObj [(''token'', JStr ''T1'')]) healthy)) = Inr () \<and>
   token (snd (login (client (JObj [(''token'', JStr ''T1'')]) healthy))) = JStr ''T1'' \<and>
   respond (session (client (JObj [(''msg'', JStr ''denied'')]) healthy))
     (calls (session (client (JObj [(''msg'', JStr ''denied'')]) healthy)))
     (Post_login (username (client (JObj [(''msg'', JStr ''denied'')]) healthy))
                 (password (client (JObj [(''msg'', JStr ''denied'')]) healthy))) =
     Inr \<lparr>status = 200, json_body = Inr (JObj [(''msg'', JStr ''denied'')])\<rparr> \<and>
   fst (login (client (JObj [(''msg'', JStr ''denied'')]) healthy)) =
     Inl (AuthenticationError ''Authentication failed'') \<and>
   token (snd (login (client (JObj [(''msg'', JStr ''denied'')]) healthy))) = JNull"
proof -
  let ?a = "client (JObj [(''token'', JStr ''T1'')]) healthy"
  let ?b = "client (JObj [(''msg'', JStr ''denied'')]) healthy"
  have a: "respond (session ?a) (calls (session ?a)) (Post_login (username ?a) (password ?a)) =
      Inr \<lparr>status = 200, json_body = Inr (JObj [(''token'', JStr ''T1'')])\<rparr>"
    by (simp add: client_def init_def service_def ok_def)
  have b: "respond (session ?b) (calls (session ?b)) (Post_login (username ?b) (password ?b)) =
      Inr \<lparr>status = 200, json_body = Inr (JObj [(''msg'', JStr ''denied'')])\<rparr>"
    by (simp add: client_def init_def service_def ok_def)
  have tb: "token ?b = JNull"
    by (simp add: client_def init_def)
  show ?thesis
    using a b tb login_token [OF a, of "[(''token'', JStr ''T1'')]"]
      login_token [OF b, of "[(''msg'', JStr ''denied'')]"]
    by simp
qed

text \<open>
  On a service that answers every GET with 401, an object holding the token \<open>old\<close> makes
  two GETs, both with the header built from \<open>old\<close>, and no POST to /login: the calls
  \<^verbatim>\<open>self.refresh_token()\<close> and \<^verbatim>\<open>self.login()\<close> are not awaited. The second 401 is not
  raised as AuthenticationError: get_data returns None.
\<close>

theorem get_data_401_counterexample:
  "new_calls (get_data StationList) expired =
     [(Get StationList (JStr ''old''), failed 401), (Get StationList (JStr ''old''), failed 401)] \<and>
   fst (get_data StationList expired) = Inr JNull \<and>
   token (snd (get_data StationList expired)) = JStr ''old''"
  by (simp add: run_simps)

text \<open>
  C1, as the code has it. When the first GET of a get_data call is answered with status
  401, the call makes exactly one more GET, of the same endpoint, and no further one. When
  that retry is answered with 401 too, get_data raises nothing: it returns None.
\<close>

theorem get_data_retries_once:
  assumes "gets (new_calls (get_data endpoint) self) = (e1, Inr resp1) # rest"
      and "status resp1 = 401"
  shows "\<exists>r2. gets (new_calls (get_data endpoint) self) = [(endpoint, Inr resp1), (endpoint, r2)] \<and>
           (\<forall>resp2. r2 = Inr resp2 \<longrightarrow> status resp2 = 401 \<longrightarrow>
              fst (get_data endpoint self) = Inr JNull)"
  using assms
  by (auto simp: new_calls_get_data get_data_apply result_of_def Let_def split: sum.splits if_splits)

text \<open>
  The run on the service that answers every GET with 401.
\<close>

theorem get_data_retries_once_witness:
  "gets (new_calls (get_data StationList) expired) =
     (StationList, Inr \<lparr>status = 401, json_body = Inl (ClientError ''ContentTypeError'')\<rparr>) #
     [(StationList, failed 401)] \<and>
   (\<exists>r2. gets (new_calls (get_data StationList) expired) =
      [(StationList, Inr \<lparr>status = 401, json_body = Inl (ClientError ''ContentTypeError'')\<rparr>),
       (StationList, r2)] \<and>
      (\<forall>resp2. r2 = Inr resp2 \<longrightarrow> status resp2 = 401 \<longrightarrow>
         fst (get_data StationList expired) = Inr JNull))"
proof -
  have h: "gets (new_calls (get_data StationList) expired) =
     (StationList, Inr \<lparr>status = 401, json_body = Inl (ClientError ''ContentTypeError'')\<rparr>) #
     [(StationList, failed 401)]"
    by (simp add: run_simps)
  show ?thesis
    using h get_data_retries_once [OF h] by simp
qed

text \<open>
  C3. When the station detail is absent (status 500), the run goes on to the inverter
  stages, and the dict display then reads \<^verbatim>\<open>totalActivePower\<close>, which was never assigned:
  the run ends in UnboundLocalError. When the inverter list is absent, the run does not
  reach the inverter detail: formatting its URL reads \<^verbatim>\<open>deviceGuid\<close>, never assigned, and
  the run ends in UnboundLocalError after the GETs of the first three endpoints. No step
  checks for an unset field.
\<close>

theorem absent_stage_unbound_local:
  "fst (fetch_solar_data (client (JObj [(''token'', JStr ''T1'')])
          (healthy (PowerStationByGuid (JStr ''G1'') := failed 500)))) =
     Inl (UnboundLocalError ''totalActivePower'') \<and>
   fst (fetch_solar_data (client (JObj [(''token'', JStr ''T1'')])
          (healthy (SelectDeviceInverter := failed 500)))) =
     Inl (UnboundLocalError ''deviceGuid'') \<and>
   map fst (gets (new_calls fetch_solar_data (client (JObj [(''token'', JStr ''T1'')])
          (healthy (SelectDeviceInverter := failed 500))))) =
     [StationList, PowerStationByGuid (JStr ''G1''), SelectDeviceInverter]"
  by (simp add: run_simps)

text \<open>
  A second fetch_solar_data on an object that holds the token of a first, successful
  one: its first request is again the POST to /login, and every reply of the run has
  status 200.
\<close>

theorem second_fetch_login_counterexample:
  "token (snd (fetch_solar_data (client (JObj [(''token'', JStr ''T1'')]) healthy))) = JStr ''T1'' \<and>
   map fst (new_calls fetch_solar_data
      (snd (fetch_solar_data (client (JObj [(''token'', JStr ''T1'')]) healthy)))) =
     [Post_login (Some ''user'') (Some ''secret''),
      Get StationList (JStr ''T1''),
      Get (PowerStationByGuid (JStr ''G1'')) (JStr ''T1''),
      Get SelectDeviceInverter (JStr ''T1''),
      Get (SelectDeviceInverterInfo (JStr ''D1'')) (JStr ''T1'')] \<and>
   statuses (new_calls fetch_solar_data
      (snd (fetch_solar_data (client (JObj [(''token'', JStr ''T1'')]) healthy)))) =
     [Some 200, Some 200, Some 200, Some 200, Some 200]"
  by (simp add: run_simps)

text \<open>
  C4, as the code has it. fetch_solar_data awaits login unconditionally: whenever the
  credentials are set, the first request of the run is the POST to /login, whatever
  token the object holds.
\<close>

theorem fetch_logs_in_every_time:
  assumes "str_truthy (username self)" and "str_truthy (password self)"
  shows "\<exists>r rest. new_calls fetch_solar_data self =
           (Post_login (username self) (password self), r) # rest"
proof -
  have "get_credentials self = Inr ()"
    using assms by (simp add: get_credentials_def)
  then show ?thesis
    by (simp add: fetch_solar_data_def new_calls_bindS framed_rules new_calls_login)
qed

text \<open>
  The second run on the healthy service.
\<close>

theorem fetch_logs_in_every_time_witness:
  "str_truthy (username (snd (fetch_solar_data (client (JObj [(''token'', JStr ''T1'')]) healthy)))) \<and>
   str_truthy (password (snd (fetch_solar_data (client (JObj [(''token'', JStr ''T1'')]) healthy)))) \<and>
   (\<exists>r rest. new_calls fetch_solar_data
        (snd (fetch_solar_data (client (JObj [(''token'', JStr ''T1'')]) healthy))) =
      (Post_login (Some ''user'') (Some ''secret''), r) # rest)"
proof -
  let ?c = "snd (fetch_solar_data (client (JObj [(''token'', JStr ''T1'')]) healthy))"
  have u: "username ?c = Some ''user''" and p: "password ?c = Some ''secret''"
    using framed_fetch_solar_data
    by (simp_all add: framed_def frame_def client_def init_def)
  have h1: "str_truthy (username ?c)" and h2: "str_truthy (password ?c)"
    by (simp_all add: u p)
  show ?thesis
    using h1 h2 fetch_logs_in_every_time [OF h1 h2] by (simp add: u p)
qed

text \<open>
  The report returned on the healthy service has twelve keys, not eleven.
\<close>

theorem report_keys_counterexample:
  "length (report_keys (fst (fetch_solar_data (client (JObj [(''token'', JStr ''T1'')]) healthy)))) = 12 \<and>
   length (report_keys (fst (fetch_solar_data (client (JObj [(''token'', JStr ''T1'')]) healthy)))) \<noteq> 11"
  by (simp add: run_simps)

text \<open>
  C2, as the code has it. In JSON mode, when login is answered with a token, the station
  list with a first row carrying status, stationName and powerStationGuid, the station
  detail with the four energy fields under data, the inverter list with a first row
  carrying deviceGuid, and the inverter detail with two pv entries carrying voltage,
  current and power, fetch_solar_data returns the JSON text of an object with exactly
  twelve keys, in the order of the dict display, each value being the value of the
  corresponding field of the responses.
\<close>

theorem fetch_round_trip:
  assumes creds: "str_truthy (username self)" "str_truthy (password self)"
      and flag: "return_json self"
      and login: "\<And>h. respond (session self) h (Post_login (username self) (password self)) =
                      ok (JObj login_body)"
                 "map_of login_body ''token'' = Some tok"
      and stations: "\<And>h t. respond (session self) h (Get StationList t) = ok (JObj station_list)"
                 "map_of station_list ''rows'' = Some (JArr (JObj row # rows))"
                 "map_of row ''status'' = Some sv"
                 "map_of row ''stationName'' = Some nv"
                 "map_of row ''powerStationGuid'' = Some gv"
      and detail: "\<And>h t. respond (session self) h (Get (PowerStationByGuid gv) t) = ok (JObj detail)"
                 "map_of detail ''data'' = Some (JObj energy)"
                 "map_of energy ''totalActivePower'' = Some tap"
                 "map_of energy ''dayEnergy'' = Some de"
                 "map_of energy ''monthEnergy'' = Some me"
                 "map_of energy ''yearEnergy'' = Some ye"
      and inverters: "\<And>h t. respond (session self) h (Get SelectDeviceInverter t) = ok (JObj inverter_list)"
                 "map_of inverter_list ''rows'' = Some (JArr (JObj dev # devs))"
                 "map_of dev ''deviceGuid'' = Some dv"
      and info: "\<And>h t. respond (session self) h (Get (SelectDeviceInverterInfo dv) t) = ok (JObj info)"
                 "map_of info ''data'' = Some (JObj idata)"
                 "map_of idata ''pv'' = Some (JArr (JObj panel_a # JObj panel_b # others))"
                 "map_of panel_a ''voltage'' = Some va" "map_of panel_a ''current'' = Some ca"
                 "map_of panel_a ''power'' = Some wa"
                 "map_of panel_b ''voltage'' = Some vb" "map_of panel_b ''current'' = Some cb"
                 "map_of panel_b ''power'' = Some wb"
  shows "fst (fetch_solar_data self) =
     Inr (Some (Json_dumps (JObj
       [(''Status'', sv), (''StationName'', nv), (''TotalActivePower(W)'', tap),
        (''DailyEnergy(Wh)'', de), (''MonthlyEnergy(Wh)'', me), (''YearlyEnergy(Wh)'', ye),
        (''Panel1Voltage(V)'', va), (''Panel1Current(A)'', ca), (''Panel1Power(W)'', wa),
        (''Panel2Voltage(V)'', vb), (''Panel2Current(A)'', cb), (''Panel2Power(W)'', wb)]))) \<and>
     length (report_keys (fst (fetch_solar_data self))) = 12"
proof -
  have gc: "get_credentials self = Inr ()"
    using creds by (simp add: get_credentials_def)
  have lg: "login self = (Inr (), record_calls
      [(Post_login (username self) (password self), ok (JObj login_body))] self\<lparr>token := tok\<rparr>)"
    using login by (simp add: login_apply ok_def dict_lookup key_in_dict Let_def)
  have gd: "\<And>e s body. respond (session s) = respond (session self) \<Longrightarrow>
      (\<And>h t. respond (session self) h (Get e t) = ok body) \<Longrightarrow>
      get_data e s = (Inr body, record_calls [(Get e (token s), ok body)] s)"
    by (simp add: get_data_apply ok_def result_of_def Let_def)
  have hr: "has_rows (JObj station_list) = Inr True"
    using stations(2) by (auto simp: has_rows_def dict_lookup key_in_dict)
  have sf: "station_fields (JObj station_list) = Inr (sv, nv, gv)"
    using stations by (auto simp: station_fields_def dict_lookup)
  have pf: "power_fields (JObj detail) = Inr (Some (tap, de, me, ye))"
    using detail by (auto simp: power_fields_def dict_lookup)
  have dg: "device_guid (JObj inverter_list) = Inr (Some dv)"
    using inverters by (auto simp: device_guid_def dict_lookup)
  have pv: "pv_fields (JObj info) = Inr (Some (va, ca, wa, vb, cb, wb))"
    using info by (auto simp: pv_fields_def dict_lookup)
  have "fst (fetch_solar_data self) =
     Inr (Some (Json_dumps (JObj
       [(''Status'', sv), (''StationName'', nv), (''TotalActivePower(W)'', tap),
        (''DailyEnergy(Wh)'', de), (''MonthlyEnergy(Wh)'', me), (''YearlyEnergy(Wh)'', ye),
        (''Panel1Voltage(V)'', va), (''Panel1Current(A)'', ca), (''Panel1Power(W)'', wa),
        (''Panel2Voltage(V)'', vb), (''Panel2Current(A)'', cb), (''Panel2Power(W)'', wb)])))"
    using flag
    by (simp add: fetch_solar_data_def bindS_apply gc lg gd stations(1) detail(1) inverters(1)
          info(1) hr sf pf dg pv build_result_def local_var_def)
  then show ?thesis
    by simp
qed

text \<open>
  The run on the healthy service.
\<close>

theorem fetch_round_trip_witness:
  "fst (fetch_solar_data (client (JObj [(''token'', JStr ''T1'')]) healthy)) =
     Inr (Some (Json_dumps (JObj
       [(''Status'', JStr ''ready''), (''StationName'', JStr ''Roof''),
        (''TotalActivePower(W)'', JInt 640), (''DailyEnergy(Wh)'', JInt 2100),
        (''MonthlyEnergy(Wh)'', JInt 51000), (''YearlyEnergy(Wh)'', JInt 430000),
        (''Panel1Voltage(V)'', JInt 31), (''Panel1Current(A)'', JInt 9),
        (''Panel1Power(W)'', JInt 279), (''Panel2Voltage(V)'', JInt 30),
        (''Panel2Current(A)'', JInt 12), (''Panel2Power(W)'', JInt 360)]))) \<and>
   length (report_keys (fst (fetch_solar_data (client (JObj [(''token'', JStr ''T1'')]) healthy)))) = 12"
  by (rule fetch_round_trip [where login_body = "[(''token'', JStr ''T1'')]"
        and gv = "JStr ''G1''" and dv = "JStr ''D1''" and rows = "[]" and devs = "[]"
        and others = "[]" and tok = "JStr ''T1''"
        and row = "[(''status'', JStr ''ready''), (''stationName'', JStr ''Roof''),
                    (''powerStationGuid'', JStr ''G1'')]"
        and energy = "[(''totalActivePower'', JInt 640), (''dayEnergy'', JInt 2100),
                       (''monthEnergy'', JInt 51000), (''yearEnergy'', JInt 430000)]"
        and dev = "[(''deviceGuid'', JStr ''D1'')]"
        and station_list = "[(''rows'', JArr [JObj [(''status'', JStr ''ready''),
                    (''stationName'', JStr ''Roof''), (''powerStationGuid'', JStr ''G1'')]])]"
        and detail = "[(''data'', JObj [(''totalActivePower'', JInt 640),
                    (''dayEnergy'', JInt 2100), (''monthEnergy'', JInt 51000),
                    (''yearEnergy'', JInt 430000)])]"
        and inverter_list = "[(''rows'', JArr [JObj [(''deviceGuid'', JStr ''D1'')]])]"
        and info = "[(''data'', JObj [(''pv'',
               JArr [JObj [(''voltage'', JInt 31), (''current'', JInt 9), (''power'', JInt 279)],
                     JObj [(''voltage'', JInt 30), (''current'', JInt 12), (''power'', JInt 360)]])])]"
        and panel_a = "[(''voltage'', JInt 31), (''current'', JInt 9), (''power'', JInt 279)]"
        and panel_b = "[(''voltage'', JInt 30), (''current'', JInt 12), (''power'', JInt 360)]"
        and idata = "[(''pv'',
               JArr [JObj [(''voltage'', JInt 31), (''current'', JInt 9), (''power'', JInt 279)],
                     JObj [(''voltage'', JInt 30), (''current'', JInt 12), (''power'', JInt 360)]])]"])
     (simp_all add: client_def init_def service_def healthy_def ok_def)

text \<open>
  C7. When the station list is an object whose rows field is missing or is the empty
  list, fetch_solar_data returns None without raising, in the state in which the
  station-list call left the object: the only GETs of the run are those of the station
  list.
\<close>

theorem no_station_no_report:
  assumes "get_credentials self = Inr ()"
      and "login self = (Inr (), s1)"
      and "get_data StationList s1 = (Inr (JObj kvs), s2)"
      and "map_of kvs ''rows'' = None \<or> map_of kvs ''rows'' = Some (JArr [])"
  shows "fetch_solar_data self = (Inr None, s2) \<and>
         set (map fst (gets (new_calls fetch_solar_data self))) \<subseteq> {StationList}"
proof -
  have "has_rows (JObj kvs) = Inr False"
    using assms(4) has_rows_absent has_rows_empty by blast
  then have run: "fetch_solar_data self = (Inr None, s2)"
    using assms(1-3) by (simp add: fetch_solar_data_def bindS_apply)
  have c1: "calls (session s1) = calls (session self) @ new_calls login self"
    using calls_new_calls [OF framed_login, of self] assms(2) by simp
  have c2: "calls (session s2) = calls (session s1) @ new_calls (get_data StationList) s1"
    using calls_new_calls [OF framed_get_data, of StationList s1] assms(3) by simp
  have "new_calls fetch_solar_data self = new_calls login self @ new_calls (get_data StationList) s1"
    using run c1 c2 by (simp add: new_calls_def)
  then have "gets (new_calls fetch_solar_data self) = gets (new_calls (get_data StationList) s1)"
    by (simp add: new_calls_login)
  then show ?thesis
    using run gets_get_data [of StationList s1] by simp
qed

text \<open>
  The run on a service whose station list is empty.
\<close>

theorem no_station_no_report_witness:
  "get_credentials (client (JObj [(''token'', JStr ''T1'')])
      (healthy (StationList := ok (JObj [(''rows'', JArr [])])))) = Inr () \<and>
   fst (login (client (JObj [(''token'', JStr ''T1'')])
      (healthy (StationList := ok (JObj [(''rows'', JArr [])]))))) = Inr () \<and>
   fst (get_data StationList (snd (login (client (JObj [(''token'', JStr ''T1'')])
      (healthy (StationList := ok (JObj [(''rows'', JArr [])]))))))) =
     Inr (JObj [(''rows'', JArr [])]) \<and>
   map_of [(''rows'', JArr [])] ''rows'' = Some (JArr []) \<and>
   fst (fetch_solar_data (client (JObj [(''token'', JStr ''T1'')])
      (healthy (StationList := ok (JObj [(''rows'', JArr [])]))))) = Inr None \<and>
   set (map fst (gets (new_calls fetch_solar_data (client (JObj [(''token'', JStr ''T1'')])
      (healthy (StationList := ok (JObj [(''rows'', JArr [])]))))))) \<subseteq> {StationList}"
proof -
  let ?c = "client (JObj [(''token'', JStr ''T1'')])
      (healthy (StationList := ok (JObj [(''rows'', JArr [])])))"
  have a: "get_credentials ?c = Inr ()"
    by (simp add: run_simps)
  have b: "fst (login ?c) = Inr ()"
    by (simp add: run_simps)
  then have b': "login ?c = (Inr (), snd (login ?c))"
    by (metis prod.collapse)
  have c: "fst (get_data StationList (snd (login ?c))) = Inr (JObj [(''rows'', JArr [])])"
    by (simp add: run_simps)
  then have c': "get_data StationList (snd (login ?c)) =
      (Inr (JObj [(''rows'', JArr [])]), snd (get_data StationList (snd (login ?c))))"
    by (metis prod.collapse)
  have d: "map_of [(''rows'', JArr [])] ''rows'' = None \<or>
           map_of [(''rows'', JArr [])] ''rows'' = Some (JArr [])"
    by simp
  show ?thesis
    using a b c no_station_no_report [OF a b' c' d] by simp
qed

text \<open>
  C5. When the last exchange of a run is the GET of the inverter detail, answered with
  status 200 and a body whose data.pv is a list of fewer than two entries, the run
  raises: it returns no report. The exception is the interpreter's own for data of the
  wrong shape: IndexError from \<^verbatim>\<open>pv[0]\<close> or \<^verbatim>\<open>pv[1]\<close>, or, when the one entry present is not
  a dict or lacks a field, the TypeError or KeyError of reading that entry. It is
  IndexError whenever every entry present is a dict with voltage, current and power.
\<close>

theorem short_pv_raises:
  assumes "new_calls fetch_solar_data self \<noteq> []"
      and "last (new_calls fetch_solar_data self) = (Get (SelectDeviceInverterInfo g) t, ok body)"
      and "py_getitem body ''data'' = Inr d"
      and "py_getitem d ''pv'' = Inr (JArr pv)"
      and "length pv < 2"
  shows "\<exists>e. fst (fetch_solar_data self) = Inl e \<and>
           (e = IndexError \<or> e = TypeError \<or> (\<exists>k. e = KeyError k)) \<and>
           ((\<forall>p \<in> set pv. \<exists>kvs. p = JObj kvs \<and>
               {''voltage'', ''current'', ''power''} \<subseteq> fst ` set kvs) \<longrightarrow> e = IndexError)"
proof -
  obtain e where e: "pv_fields body = Inl e"
      "e = IndexError \<or> e = TypeError \<or> (\<exists>k. e = KeyError k)"
      "(\<forall>p \<in> set pv. \<exists>kvs. p = JObj kvs \<and>
          {''voltage'', ''current'', ''power''} \<subseteq> fst ` set kvs) \<longrightarrow> e = IndexError"
    using short_pv_error [OF assms(3-5)] by blast
  have "fst (fetch_solar_data self) = Inl e"
    using stops_short_fetch_solar_data [OF e(1)] assms(1,2)
    by (auto simp: stops_short_def)
  with e show ?thesis
    by blast
qed

text \<open>
  The run on a service whose inverter reports a single panel.
\<close>

theorem short_pv_raises_witness:
  "last (new_calls fetch_solar_data (client (JObj [(''token'', JStr ''T1'')])
      (healthy (SelectDeviceInverterInfo (JStr ''D1'') := ok (JObj [(''data'', JObj [(''pv'',
         JArr [JObj [(''voltage'', JInt 31), (''current'', JInt 9), (''power'', JInt 279)]])])]))))) =
     (Get (SelectDeviceInverterInfo (JStr ''D1'')) (JStr ''T1''),
      ok (JObj [(''data'', JObj [(''pv'',
         JArr [JObj [(''voltage'', JInt 31), (''current'', JInt 9), (''power'', JInt 279)]])])])) \<and>
   fst (fetch_solar_data (client (JObj [(''token'', JStr ''T1'')])
      (healthy (SelectDeviceInverterInfo (JStr ''D1'') := ok (JObj [(''data'', JObj [(''pv'',
         JArr [JObj [(''voltage'', JInt 31), (''current'', JInt 9), (''power'', JInt 279)]])])]))))) =
     Inl IndexError"
proof -
  let ?pv = "[JObj [(''voltage'', JInt 31), (''current'', JInt 9), (''power'', JInt 279)]]"
  let ?d = "JObj [(''pv'', JArr ?pv)]"
  let ?body = "JObj [(''data'', ?d)]"
  let ?c = "client (JObj [(''token'', JStr ''T1'')])
      (healthy (SelectDeviceInverterInfo (JStr ''D1'') := ok ?body))"
  have tr: "new_calls fetch_solar_data ?c =
     [(Post_login (Some ''user'') (Some ''secret''), ok (JObj [(''token'', JStr ''T1'')])),
      (Get StationList (JStr ''T1''), healthy StationList),
      (Get (PowerStationByGuid (JStr ''G1'')) (JStr ''T1''),
       healthy (PowerStationByGuid (JStr ''G1''))),
      (Get SelectDeviceInverter (JStr ''T1''), healthy SelectDeviceInverter),
      (Get (SelectDeviceInverterInfo (JStr ''D1'')) (JStr ''T1''), ok ?body)]"
    by (simp add: run_simps)
  have a: "new_calls fetch_solar_data ?c \<noteq> []"
    by (simp add: tr)
  have b: "last (new_calls fetch_solar_data ?c) =
      (Get (SelectDeviceInverterInfo (JStr ''D1'')) (JStr ''T1''), ok ?body)"
    by (simp add: tr)
  have c: "py_getitem ?body ''data'' = Inr ?d" and d: "py_getitem ?d ''pv'' = Inr (JArr ?pv)"
    and e: "length ?pv < 2"
    by simp_all
  show ?thesis
    using b short_pv_raises [OF a b c d e] by auto
qed

text \<open>
  C10. Two runs of fetch_solar_data from objects with equal username, password,
  return_json flag and token, during which the two sessions (which may be different
  transports, with different histories) give the same sequence of replies, return the
  same value or raise the same exception, leave the same token, and make the same
  sequence of requests.
\<close>

theorem fetch_deterministic:
  assumes "username a = username b" and "password a = password b"
      and "return_json a = return_json b" and "token a = token b"
      and "map snd (new_calls fetch_solar_data a) = map snd (new_calls fetch_solar_data b)"
  shows "fst (fetch_solar_data a) = fst (fetch_solar_data b) \<and>
         token (snd (fetch_solar_data a)) = token (snd (fetch_solar_data b)) \<and>
         map fst (new_calls fetch_solar_data a) = map fst (new_calls fetch_solar_data b)"
proof -
  have "sim a b"
    using assms(1-4) by (simp add: sim_def)
  moreover have "prefix (replies fetch_solar_data a) (replies fetch_solar_data b)"
    using assms(5) by (simp add: replies_def)
  ultimately have "fst (fetch_solar_data a) = fst (fetch_solar_data b)"
    "sim (snd (fetch_solar_data a)) (snd (fetch_solar_data b))"
    "new_calls fetch_solar_data a = new_calls fetch_solar_data b"
    using lockstep_fetch_solar_data by (auto simp: lockstep_def)
  then show ?thesis
    by (simp add: sim_def)
qed

text \<open>
  Two objects on different services, the second session already used: both runs receive
  the same five replies.
\<close>

theorem fetch_deterministic_witness:
  "session (client (JObj [(''token'', JStr ''T1'')]) healthy) \<noteq> session returning_client \<and>
   map snd (new_calls fetch_solar_data (client (JObj [(''token'', JStr ''T1'')]) healthy)) =
   map snd (new_calls fetch_solar_data returning_client) \<and>
   fst (fetch_solar_data (client (JObj [(''token'', JStr ''T1'')]) healthy)) =
   fst (fetch_solar_data returning_client) \<and>
   token (snd (fetch_solar_data (client (JObj [(''token'', JStr ''T1'')]) healthy))) =
   token (snd (fetch_solar_data returning_client)) \<and>
   map fst (new_calls fetch_solar_data (client (JObj [(''token'', JStr ''T1'')]) healthy)) =
   map fst (new_calls fetch_solar_data returning_client)"
proof -
  let ?a = "client (JObj [(''token'', JStr ''T1'')]) healthy"
  have f: "username ?a = username returning_client" "password ?a = password returning_client"
    "return_json ?a = return_json returning_client" "token ?a = token returning_client"
    by (simp_all add: client_def returning_client_def init_def)
  have d: "calls (session ?a) \<noteq> calls (session returning_client)"
    by (simp add: client_def returning_client_def init_def)
  have r: "map snd (new_calls fetch_solar_data ?a) =
      map snd (new_calls fetch_solar_data returning_client)"
    by (simp add: run_simps returning_client_def picky_def)
  show ?thesis
    using d r fetch_deterministic [OF f r] by auto
qed

end
